theory Spec2Isabelle
  imports Main "HOL-Library.Sublist"
begin

section \<open>Python strings\<close>

text \<open>
  A Python \<open>str\<close> is modelled as a \<open>string\<close>, one \<open>char\<close> per code point, so the model
  covers text whose code points lie below 256. The character classes are those of
  \<open>str.isspace\<close>, \<open>str.isdecimal\<close> and of the \<open>re\<close> module's \<open>\s\<close>, \<open>\d\<close>, \<open>\w\<close>
  on that range. The only literals of the program that leave the range are the marks of the
  verification report (section on logic analysis); they are written in their UTF-8 encoding.
\<close>

definition is_space :: "char \<Rightarrow> bool" where
  "is_space c = (let n = (of_char c :: nat) in
     (9 \<le> n \<and> n \<le> 13) \<or> (28 \<le> n \<and> n \<le> 32) \<or> n = 133 \<or> n = 160)"

definition is_digit :: "char \<Rightarrow> bool" where
  "is_digit c = (let n = (of_char c :: nat) in 48 \<le> n \<and> n \<le> 57)"

definition is_word :: "char \<Rightarrow> bool" where
  "is_word c = (let n = (of_char c :: nat) in
     (48 \<le> n \<and> n \<le> 57) \<or> (65 \<le> n \<and> n \<le> 90) \<or> n = 95 \<or> (97 \<le> n \<and> n \<le> 122)
     \<or> n = 170 \<or> n = 178 \<or> n = 179 \<or> n = 181 \<or> n = 185 \<or> n = 186
     \<or> (188 \<le> n \<and> n \<le> 190) \<or> (192 \<le> n \<and> n \<le> 214) \<or> (216 \<le> n \<and> n \<le> 246)
     \<or> 248 \<le> n)"

text \<open>\<open>s.strip()\<close>, \<open>s.lower()\<close>, \<open>sub in s\<close>, \<open>s.startswith(p)\<close> (\<open>prefix\<close>),
  \<open>s.endswith(p)\<close> (\<open>suffix\<close>).\<close>

definition strip_by :: "(char \<Rightarrow> bool) \<Rightarrow> string \<Rightarrow> string" where
  "strip_by P s = rev (dropWhile P (rev (dropWhile P s)))"

definition strip :: "string \<Rightarrow> string" where
  "strip s = strip_by is_space s"





primrec contains :: "string \<Rightarrow> string \<Rightarrow> bool" where
  "contains sub [] = (sub = [])"
| "contains sub (c # cs) = (prefix sub (c # cs) \<or> contains sub cs)"

text \<open>\<open>s.split()\<close>: the maximal runs of non-whitespace characters.\<close>

fun split_ws_aux :: "string \<Rightarrow> string \<Rightarrow> string list" where
  "split_ws_aux cur [] = (if cur = [] then [] else [rev cur])"
| "split_ws_aux cur (c # cs) =
     (if is_space c then (if cur = [] then split_ws_aux [] cs else rev cur # split_ws_aux [] cs)
      else split_ws_aux (c # cur) cs)"

definition split_ws :: "string \<Rightarrow> string list" where
  "split_ws s = split_ws_aux [] s"

text \<open>\<open>s.split('\n')\<close>: always at least one piece.\<close>

fun split_on_aux :: "char \<Rightarrow> string \<Rightarrow> string \<Rightarrow> string list" where
  "split_on_aux d cur [] = [rev cur]"
| "split_on_aux d cur (c # cs) =
     (if c = d then rev cur # split_on_aux d [] cs else split_on_aux d (c # cur) cs)"

definition split_lines :: "string \<Rightarrow> string list" where
  "split_lines s = split_on_aux CHR 0x0A [] s"

text \<open>\<open>sep.join(xs)\<close>.\<close>

fun join :: "string \<Rightarrow> string list \<Rightarrow> string" where
  "join sep [] = []"
| "join sep [x] = x"
| "join sep (x # y # ys) = x @ sep @ join sep (y # ys)"

text \<open>\<open>str(n)\<close> for an integer.\<close>

fun str_nat :: "nat \<Rightarrow> string" where
  "str_nat n = (if n < 10 then [''0123456789'' ! n]
                else str_nat (n div 10) @ [''0123456789'' ! (n mod 10)])"

declare str_nat.simps [simp del]

definition str_int :: "int \<Rightarrow> string" where
  "str_int i = (if i < 0 then CHR ''-'' # str_nat (nat (- i)) else str_nat (nat i))"

text \<open>
  \<open>int(s)\<close> for base 10: surrounding whitespace is dropped (for \<open>int\<close> the
  separators \<open>0x1C\<close> to \<open>0x1F\<close> are not whitespace); an optional sign is followed by
  digits, where single underscores may separate digits. Anything else raises
  \<open>ValueError\<close>, here \<open>None\<close>.
\<close>

definition is_int_space :: "char \<Rightarrow> bool" where
  "is_int_space c = (let n = (of_char c :: nat) in
     (9 \<le> n \<and> n \<le> 13) \<or> n = 32 \<or> n = 133 \<or> n = 160)"

fun digits_value :: "int \<Rightarrow> bool \<Rightarrow> string \<Rightarrow> int option" where
  "digits_value acc after_digit [] = (if after_digit then Some acc else None)"
| "digits_value acc after_digit (c # cs) =
     (if is_digit c then digits_value (acc * 10 + (int (of_char c) - 48)) True cs
      else if c = CHR ''_'' \<and> after_digit \<and> cs \<noteq> [] \<and> is_digit (hd cs)
      then digits_value acc False cs
      else None)"

definition py_int :: "string \<Rightarrow> int option" where
  "py_int s = (case strip_by is_int_space s of
       [] \<Rightarrow> None
     | c # cs \<Rightarrow>
         if c = CHR ''-'' then map_option uminus (digits_value 0 False cs)
         else if c = CHR ''+'' then digits_value 0 False cs
         else digits_value 0 False (c # cs))"

section \<open>Trace query and logic analysis (class AWaveViewer)\<close>

text \<open>
  A signal as \<open>VCDParser\<close> builds it: the dict with keys \<open>name\<close>, \<open>full_name\<close>,
  \<open>width\<close>, \<open>type\<close> and \<open>values\<close>, the last a list of (time, value) pairs.
\<close>

record signal =
  sig_name :: string
  full_name :: string
  width :: int
  var_type :: string
  values_of :: "(int \<times> string) list"

datatype py_error = IndexError | ValueError

text \<open>
  \<open>get_signal_value_at_time\<close>: the loop starts from the first recorded value, overwrites
  it while the timestamps are at most \<open>time\<close>, and leaves at the first later timestamp.
\<close>

fun scan_values :: "string \<Rightarrow> (int \<times> string) list \<Rightarrow> int \<Rightarrow> string" where
  "scan_values val [] time = val"
| "scan_values val ((t, v) # rest) time =
     (if t \<le> time then scan_values v rest time else val)"

definition get_signal_value_at_time :: "signal \<Rightarrow> int \<Rightarrow> string" where
  "get_signal_value_at_time sg time =
     (if values_of sg = [] then ''X''
      else scan_values (snd (hd (values_of sg))) (values_of sg) time)"

text \<open>
  A truth table is a dict from tuples of values to a value: an association list in
  insertion order, read with \<open>map_of\<close>.
\<close>

type_synonym truth_table = "(string list \<times> string) list"

definition tt_get :: "truth_table \<Rightarrow> string list \<Rightarrow> string \<Rightarrow> string" where
  "tt_get tt k dflt = (case map_of tt k of None \<Rightarrow> dflt | Some v \<Rightarrow> v)"

text \<open>\<open>detect_gate_type\<close>, branch by branch.\<close>

definition detect_gate_type :: "truth_table \<Rightarrow> nat \<Rightarrow> string" where
  "detect_gate_type tt num_inputs =
     (if num_inputs = 1 then
        (let input_0 = map_of tt [''0'']; input_1 = map_of tt [''1''] in
         if input_0 = Some ''1'' \<and> input_1 = Some ''0'' then ''NOT Gate''
         else if input_0 = Some ''0'' \<and> input_1 = Some ''1'' then ''BUFFER''
         else ''Unknown'')
      else if num_inputs = 2 then
        (let out_00 = tt_get tt [''0'', ''0''] ''X'';
             out_01 = tt_get tt [''0'', ''1''] ''X'';
             out_10 = tt_get tt [''1'', ''0''] ''X'';
             out_11 = tt_get tt [''1'', ''1''] ''X'' in
         if out_00 = ''0'' \<and> out_01 = ''0'' \<and> out_10 = ''0'' \<and> out_11 = ''1'' then ''AND Gate''
         else if out_00 = ''0'' \<and> out_01 = ''1'' \<and> out_10 = ''1'' \<and> out_11 = ''1'' then ''OR Gate''
         else if out_00 = ''0'' \<and> out_01 = ''1'' \<and> out_10 = ''1'' \<and> out_11 = ''0'' then ''XOR Gate''
         else if out_00 = ''1'' \<and> out_01 = ''1'' \<and> out_10 = ''1'' \<and> out_11 = ''0'' then ''NAND Gate''
         else if out_00 = ''1'' \<and> out_01 = ''0'' \<and> out_10 = ''0'' \<and> out_11 = ''0'' then ''NOR Gate''
         else if out_00 = ''1'' \<and> out_01 = ''0'' \<and> out_10 = ''0'' \<and> out_11 = ''1'' then ''XNOR Gate''
         else ''Custom Logic'')
      else if num_inputs = 3 then
        (let ones_count = length (filter (\<lambda>out. out = ''1'') (map snd tt)) in
         if ones_count = 1 then
           (if tt_get tt [''1'', ''1'', ''1''] ''0'' = ''1'' then ''3-input AND''
            else ''3-input Logic'')
         else if ones_count = 7 then
           (if tt_get tt [''0'', ''0'', ''0''] ''1'' = ''0'' then ''3-input OR''
            else ''3-input Logic'')
         else if ones_count = 4 then ''3-input XOR/Complex''
         else ''3-input Logic'')
      else str_nat num_inputs @ ''-input Logic'')"

text \<open>The marks of the report text, UTF-8 encoded: U+2713, U+2717, U+2022, U+2192, U+2139.\<close>

definition check_mark :: string where "check_mark = [CHR 0xE2, CHR 0x9C, CHR 0x93]"
definition cross_mark :: string where "cross_mark = [CHR 0xE2, CHR 0x9C, CHR 0x97]"
definition bullet :: string where "bullet = [CHR 0xE2, CHR 0x80, CHR 0xA2]"
definition arrow :: string where "arrow = [CHR 0xE2, CHR 0x86, CHR 0x92]"
definition info_mark :: string where "info_mark = [CHR 0xE2, CHR 0x84, CHR 0xB9]"

text \<open>
  The loop over \<open>expected.items()\<close> of \<open>verify_gate_logic\<close>: one error line for each
  expected combination whose observed output (\<open>X\<close> when absent) differs. \<open>opname\<close>
  is the operator printed between the inputs; the NOT table prints it in front.
\<close>

definition mismatch_line :: "string \<Rightarrow> string list \<Rightarrow> string \<Rightarrow> string \<Rightarrow> string" where
  "mismatch_line opname inputs expected_out actual_out =
     ''  '' @ cross_mark @ '' Error: '' @
     (case inputs of
        [a] \<Rightarrow> opname @ '' '' @ a
      | a # b # _ \<Rightarrow> a @ '' '' @ opname @ '' '' @ b
      | [] \<Rightarrow> [])
     @ '' should be '' @ expected_out @ '', got '' @ actual_out"

definition verify_errors :: "string \<Rightarrow> truth_table \<Rightarrow> truth_table \<Rightarrow> string list" where
  "verify_errors opname expected tt =
     concat (map (\<lambda>(inputs, expected_out).
        (let actual_out = tt_get tt inputs ''X'' in
         if actual_out \<noteq> expected_out then [mismatch_line opname inputs expected_out actual_out]
         else [])) expected)"

definition verify_report :: "string list \<Rightarrow> string" where
  "verify_report errors =
     (if errors = [] then ''  '' @ check_mark @ '' ALL COMBINATIONS VERIFIED CORRECT!\<newline>''
      else join ''\<newline>'' errors @ ''\<newline>'')"

definition table2 :: "string \<Rightarrow> string \<Rightarrow> string \<Rightarrow> string \<Rightarrow> truth_table" where
  "table2 o00 o01 o10 o11 =
     [([''0'', ''0''], o00), ([''0'', ''1''], o01), ([''1'', ''0''], o10), ([''1'', ''1''], o11)]"

definition rule_line :: "string \<Rightarrow> string" where
  "rule_line txt = ''  '' @ bullet @ '' '' @ txt @ ''\<newline>''"

definition rule_ok :: "string \<Rightarrow> string" where
  "rule_ok txt = ''  '' @ bullet @ '' '' @ txt @ '' '' @ check_mark @ ''\<newline>''"

definition rules_header :: "string \<Rightarrow> string" where
  "rules_header g = check_mark @ '' '' @ g @ '' Gate Rules (Correct Logic):\<newline>''"

definition verify_gate_logic :: "string \<Rightarrow> truth_table \<Rightarrow> nat \<Rightarrow> string" where
  "verify_gate_logic gate_type tt num_inputs =
     ''VERIFICATION:\<newline>'' @
     (if contains ''AND'' gate_type \<and> \<not> contains ''NAND'' gate_type then
        rules_header ''AND'' @
        rule_ok ''0 AND 0 = 0'' @ rule_ok ''0 AND 1 = 0'' @
        rule_ok ''1 AND 0 = 0'' @ rule_ok ''1 AND 1 = 1'' @
        rule_line ''Output = 1 ONLY when ALL inputs = 1'' @
        rule_line ''Output = 0 if ANY input = 0'' @
        (if num_inputs = 2 then
           verify_report (verify_errors ''AND'' (table2 ''0'' ''0'' ''0'' ''1'') tt)
         else if tt_get tt (replicate num_inputs ''1'') ''0'' = ''1'' then
           ''  '' @ check_mark @ '' Correct: All '' @ str_nat num_inputs @ '' inputs = 1 ''
             @ arrow @ '' Output = 1\<newline>''
         else
           ''  '' @ cross_mark @ '' Error: All '' @ str_nat num_inputs @ '' inputs = 1 should ''
             @ arrow @ '' Output = 1\<newline>'')
      else if contains ''OR'' gate_type \<and> \<not> contains ''NOR'' gate_type
              \<and> \<not> contains ''XOR'' gate_type then
        rules_header ''OR'' @
        rule_ok ''0 OR 0 = 0'' @ rule_ok ''0 OR 1 = 1'' @
        rule_ok ''1 OR 0 = 1'' @ rule_ok ''1 OR 1 = 1'' @
        rule_line ''Output = 1 when ANY input = 1'' @
        rule_line ''Output = 0 only when ALL inputs = 0'' @
        (if num_inputs = 2 then
           verify_report (verify_errors ''OR'' (table2 ''0'' ''1'' ''1'' ''1'') tt)
         else if tt_get tt (replicate num_inputs ''0'') ''1'' = ''0'' then
           ''  '' @ check_mark @ '' Correct: All '' @ str_nat num_inputs @ '' inputs = 0 ''
             @ arrow @ '' Output = 0\<newline>''
         else
           ''  '' @ cross_mark @ '' Error: All '' @ str_nat num_inputs @ '' inputs = 0 should ''
             @ arrow @ '' Output = 0\<newline>'')
      else if contains ''XOR'' gate_type \<and> \<not> contains ''XNOR'' gate_type then
        rules_header ''XOR'' @
        rule_ok ''0 XOR 0 = 0'' @ rule_ok ''0 XOR 1 = 1'' @
        rule_ok ''1 XOR 0 = 1'' @ rule_ok ''1 XOR 1 = 0'' @
        rule_line ''Output = 1 when inputs are DIFFERENT'' @
        rule_line ''Output = 0 when inputs are SAME'' @
        (if num_inputs = 2 then
           verify_report (verify_errors ''XOR'' (table2 ''0'' ''1'' ''1'' ''0'') tt)
         else [])
      else if contains ''NOT'' gate_type then
        rules_header ''NOT'' @
        rule_ok ''NOT 0 = 1'' @ rule_ok ''NOT 1 = 0'' @
        rule_line ''Output = opposite of input'' @
        verify_report (verify_errors ''NOT'' [([''0''], ''1''), ([''1''], ''0'')] tt)
      else if contains ''NAND'' gate_type then
        rules_header ''NAND'' @
        rule_ok ''0 NAND 0 = 1'' @ rule_ok ''0 NAND 1 = 1'' @
        rule_ok ''1 NAND 0 = 1'' @ rule_ok ''1 NAND 1 = 0'' @
        rule_line ''Output = 0 only when ALL inputs = 1'' @
        rule_line ''Inverted AND gate'' @
        (if num_inputs = 2 then
           verify_report (verify_errors ''NAND'' (table2 ''1'' ''1'' ''1'' ''0'') tt)
         else [])
      else if contains ''NOR'' gate_type then
        rules_header ''NOR'' @
        rule_ok ''0 NOR 0 = 1'' @ rule_ok ''0 NOR 1 = 0'' @
        rule_ok ''1 NOR 0 = 0'' @ rule_ok ''1 NOR 1 = 0'' @
        rule_line ''Output = 1 only when ALL inputs = 0'' @
        rule_line ''Inverted OR gate'' @
        (if num_inputs = 2 then
           verify_report (verify_errors ''NOR'' (table2 ''1'' ''0'' ''0'' ''0'') tt)
         else [])
      else
        info_mark @ '' Custom logic detected\<newline>'' @
        ''  Check truth table for behavior\<newline>'')"

text \<open>
  \<open>max(set(outputs), key=outputs.count)\<close>: the first element, in the iteration order of
  the set, whose count is not exceeded. The iteration order of a Python set of strings
  depends on the process's hash seed, so it is a parameter \<open>iter\<close>: the list in which
  \<open>set(outputs)\<close> is enumerated.
\<close>

definition py_max_key :: "('a \<Rightarrow> nat) \<Rightarrow> 'a list \<Rightarrow> 'a option" where
  "py_max_key key xs = (case xs of
       [] \<Rightarrow> None
     | x # rest \<Rightarrow> Some (foldl (\<lambda>best y. if key best < key y then y else best) x rest))"

definition most_common :: "(string list \<Rightarrow> string list) \<Rightarrow> string list \<Rightarrow> string option" where
  "most_common iter outputs = py_max_key (count_list outputs) (iter outputs)"

text \<open>
  \<open>analyze_combinational_logic\<close>, without the text it lays out for display: the sample
  times, the samples kept, the grouping by input tuple, the consolidated truth table, the
  detected gate and the verification text. \<open>signals\<close> is the list of (identifier, signal)
  pairs; the last one is the output.
\<close>

record sample =
  sample_time :: int
  sample_inputs :: "string list"
  sample_output :: string

definition time_points :: "signal list \<Rightarrow> int list" where
  "time_points sigs = sort (remdups (concat (map (\<lambda>sg. map fst (values_of sg)) sigs)))"

definition take_sample :: "signal list \<Rightarrow> signal \<Rightarrow> int \<Rightarrow> sample" where
  "take_sample inputs output time =
     \<lparr> sample_time = time,
       sample_inputs = map (\<lambda>sg. get_signal_value_at_time sg time) inputs,
       sample_output = get_signal_value_at_time output time \<rparr>"

definition valid_sample :: "sample \<Rightarrow> bool" where
  "valid_sample s = ((\<forall>v \<in> set (sample_inputs s). v \<in> set [''0'', ''1''])
                     \<and> sample_output s \<in> set [''0'', ''1''])"

fun group_samples :: "(string list \<times> string list) list \<Rightarrow> sample list
                      \<Rightarrow> (string list \<times> string list) list" where
  "group_samples data [] = data"
| "group_samples data (s # ss) =
     (let input_tuple = sample_inputs s; output_val = sample_output s;
          data1 = (if map_of data input_tuple = None then data @ [(input_tuple, [])] else data)
      in group_samples
           (map (\<lambda>(k, outs). if k = input_tuple then (k, outs @ [output_val]) else (k, outs)) data1)
           ss)"

fun consolidate :: "(string list \<Rightarrow> string list) \<Rightarrow> (string list \<times> string list) list
                    \<Rightarrow> py_error + truth_table" where
  "consolidate iter [] = Inr []"
| "consolidate iter ((input_combo, outputs) # rest) =
     (case most_common iter outputs of
        None \<Rightarrow> Inl ValueError
      | Some mc \<Rightarrow>
          (case consolidate iter rest of
             Inl e \<Rightarrow> Inl e
           | Inr tt \<Rightarrow> Inr ((input_combo, mc) # tt)))"

record analysis =
  an_truth_table :: truth_table
  an_gate_type :: string
  an_verification :: string

definition analyze_combinational_logic ::
  "(string list \<Rightarrow> string list) \<Rightarrow> (string \<times> signal) list \<Rightarrow> py_error + analysis option" where
  "analyze_combinational_logic iter signals =
     (if signals = [] then Inl IndexError
      else
        (let inputs = map snd (butlast signals);
             output = snd (last signals);
             logic_samples =
               filter valid_sample
                 (map (take_sample inputs output) (time_points (inputs @ [output])))
         in if logic_samples = [] then Inr None
            else
              (case consolidate iter (group_samples [] logic_samples) of
                 Inl e \<Rightarrow> Inl e
               | Inr tt \<Rightarrow>
                   (let gate_type = detect_gate_type tt (length inputs) in
                    Inr (Some \<lparr> an_truth_table = tt, an_gate_type = gate_type,
                                 an_verification = verify_gate_logic gate_type tt (length inputs) \<rparr>)))))"

text \<open>A sample trace of a two-input AND gate, for concrete evaluation.\<close>

definition and_trace :: "(string \<times> signal) list" where
  "and_trace =
     [(''!'', \<lparr> sig_name = ''a'', full_name = ''tb.a'', width = 1, var_type = ''reg'',
               values_of = [(0, ''0''), (20, ''1'')] \<rparr>),
      (''#'', \<lparr> sig_name = ''b'', full_name = ''tb.b'', width = 1, var_type = ''reg'',
               values_of = [(0, ''0''), (10, ''1''), (20, ''0''), (30, ''1'')] \<rparr>),
      (''$'', \<lparr> sig_name = ''y'', full_name = ''tb.y'', width = 1, var_type = ''wire'',
               values_of = [(0, ''x''), (5, ''0''), (30, ''1'')] \<rparr>)]"

definition and_analysis :: analysis where
  "and_analysis =
     \<lparr> an_truth_table = table2 ''0'' ''0'' ''0'' ''1'',
       an_gate_type = ''AND Gate'',
       an_verification = verify_gate_logic ''AND Gate'' (table2 ''0'' ''0'' ''0'' ''1'') 2 \<rparr>"

section \<open>Regular expressions (module re)\<close>

text \<open>
  The patterns of the program use literals, character classes, greedy and lazy repetition
  of a single class, optional groups, alternation, capture groups, \<open>\b\<close> and the multi-line
  \<open>$\<close>. A pattern is a value of type \<open>re\<close>; matching is backtracking search, given as
  the list of all ways to match at a position, in the order in which the \<open>re\<close> module
  tries them. The first element of the list is the match that \<open>re\<close> reports.
\<close>

datatype re =
    Lit string
  | Cls "char \<Rightarrow> bool"
  | Many "char \<Rightarrow> bool" nat
  | Lazy "char \<Rightarrow> bool"
  | Opt re
  | Seq re re
  | Alt re re
  | Grp nat re
  | WordB
  | Eol

text \<open>
  A position is the character before it (if any) and the text from it on; a matching state
  adds the groups captured so far.
\<close>

type_synonym mstate = "(nat \<Rightarrow> string option) \<times> char option \<times> string"

text \<open>
  \<open>runs P p s\<close>: the positions reached from \<open>(p, s)\<close> by reading 0, 1, 2, ... characters
  of class \<open>P\<close>, shortest first, each with the number of characters read.
\<close>

fun runs :: "(char \<Rightarrow> bool) \<Rightarrow> char option \<Rightarrow> string \<Rightarrow> (nat \<times> char option \<times> string) list" where
  "runs P p [] = [(0, p, [])]"
| "runs P p (c # cs) =
     (0, p, c # cs) # (if P c then map (\<lambda>(n, q, r). (Suc n, q, r)) (runs P (Some c) cs) else [])"

definition at_boundary :: "char option \<Rightarrow> string \<Rightarrow> bool" where
  "at_boundary p s =
     ((case p of None \<Rightarrow> False | Some c \<Rightarrow> is_word c)
      \<noteq> (case s of [] \<Rightarrow> False | c # _ \<Rightarrow> is_word c))"

fun rmatch :: "re \<Rightarrow> mstate \<Rightarrow> mstate list" where
  "rmatch (Lit l) (g, p, s) =
     (if prefix l s then [(g, (if l = [] then p else Some (last l)), drop (length l) s)] else [])"
| "rmatch (Cls P) (g, p, s) =
     (case s of [] \<Rightarrow> [] | c # cs \<Rightarrow> if P c then [(g, Some c, cs)] else [])"
| "rmatch (Many P k) (g, p, s) =
     map (\<lambda>(n, q, r). (g, q, r)) (filter (\<lambda>(n, q, r). k \<le> n) (rev (runs P p s)))"
| "rmatch (Lazy P) (g, p, s) = map (\<lambda>(n, q, r). (g, q, r)) (runs P p s)"
| "rmatch (Opt r) st = rmatch r st @ [st]"
| "rmatch (Seq a b) st = concat (map (rmatch b) (rmatch a st))"
| "rmatch (Alt a b) st = rmatch a st @ rmatch b st"
| "rmatch (Grp i r) (g, p, s) =
     map (\<lambda>(g', p', s'). (g'(i \<mapsto> take (length s - length s') s), p', s')) (rmatch r (g, p, s))"
| "rmatch WordB (g, p, s) = (if at_boundary p s then [(g, p, s)] else [])"
| "rmatch Eol (g, p, s) = (if s = [] \<or> hd s = CHR 0x0A then [(g, p, s)] else [])"

fun seqs :: "re list \<Rightarrow> re" where
  "seqs [] = Lit []"
| "seqs [r] = r"
| "seqs (r # rs) = Seq r (seqs rs)"

fun alts :: "string list \<Rightarrow> re" where
  "alts [] = Lit []"
| "alts [w] = Lit w"
| "alts (w # ws) = Alt (Lit w) (alts ws)"

text \<open>A match object: \<open>group(0)\<close> and the numbered groups.\<close>

record rematch =
  m_text :: string
  m_group :: "nat \<Rightarrow> string option"

definition match_at :: "re \<Rightarrow> char option \<Rightarrow> string \<Rightarrow> rematch option" where
  "match_at r p s =
     (case rmatch r (Map.empty, p, s) of
        [] \<Rightarrow> None
      | (g, q, s') # _ \<Rightarrow> Some \<lparr> m_text = take (length s - length s') s, m_group = g \<rparr>)"

text \<open>\<open>re.match\<close> (at the start only) and \<open>re.search\<close> (the leftmost position that matches).\<close>

definition re_match :: "re \<Rightarrow> string \<Rightarrow> rematch option" where
  "re_match r s = match_at r None s"

fun search_from :: "re \<Rightarrow> char option \<Rightarrow> string \<Rightarrow> rematch option" where
  "search_from r p [] = match_at r p []"
| "search_from r p (c # cs) =
     (case match_at r p (c # cs) of
        Some m \<Rightarrow> Some m
      | None \<Rightarrow> search_from r (Some c) cs)"

definition re_search :: "re \<Rightarrow> string \<Rightarrow> rematch option" where
  "re_search r s = search_from r None s"

text \<open>
  \<open>re.finditer\<close> and \<open>re.findall\<close>: the non-overlapping matches from left to right.
  \<open>skip\<close> counts the characters still covered by the last match. No pattern of the
  program matches the empty string; such a match would be reported and the scan would
  move on by one character.
\<close>

fun finditer_from :: "re \<Rightarrow> char option \<Rightarrow> string \<Rightarrow> nat \<Rightarrow> rematch list" where
  "finditer_from r p [] skip =
     (if skip = 0 then (case match_at r p [] of None \<Rightarrow> [] | Some m \<Rightarrow> [m]) else [])"
| "finditer_from r p (c # cs) skip =
     (if 0 < skip then finditer_from r (Some c) cs (skip - 1)
      else (case match_at r p (c # cs) of
              None \<Rightarrow> finditer_from r (Some c) cs 0
            | Some m \<Rightarrow> m # finditer_from r (Some c) cs (length (m_text m) - 1)))"

definition finditer :: "re \<Rightarrow> string \<Rightarrow> rematch list" where
  "finditer r s = finditer_from r None s 0"

text \<open>\<open>re.sub(pattern, '', s)\<close>: the text outside the matches.\<close>

fun sub_from :: "re \<Rightarrow> char option \<Rightarrow> string \<Rightarrow> nat \<Rightarrow> string" where
  "sub_from r p [] skip = []"
| "sub_from r p (c # cs) skip =
     (if 0 < skip then sub_from r (Some c) cs (skip - 1)
      else (case match_at r p (c # cs) of
              None \<Rightarrow> c # sub_from r (Some c) cs 0
            | Some m \<Rightarrow>
                if m_text m = [] then c # sub_from r (Some c) cs 0
                else sub_from r (Some c) cs (length (m_text m) - 1)))"

definition re_sub_empty :: "re \<Rightarrow> string \<Rightarrow> string" where
  "re_sub_empty r s = sub_from r None s 0"

text \<open>The classes \<open>.\<close> (without and with DOTALL).\<close>

definition not_newline :: "char \<Rightarrow> bool" where
  "not_newline c = (c \<noteq> CHR 0x0A)"

definition any_char :: "char \<Rightarrow> bool" where
  "any_char c = True"

text \<open>\<open>int(s)\<close> on a group matched by \<open>\d+\<close>, where it cannot fail.\<close>

definition int_of_digits :: "string \<Rightarrow> int" where
  "int_of_digits s = foldl (\<lambda>a c. a * 10 + (int (of_char c) - 48)) 0 s"

section \<open>VerilogSyntaxChecker\<close>

text \<open>\<open>_remove_comments\<close>: first \<open>//.*?$\<close> (MULTILINE), then \<open>/\*.*?\*/\<close> (DOTALL).\<close>

definition line_comment_re :: re where
  "line_comment_re = seqs [Lit ''//'', Lazy not_newline, Eol]"

definition block_comment_re :: re where
  "block_comment_re = seqs [Lit ''/*'', Lazy any_char, Lit ''*/'']"

definition remove_comments :: "string \<Rightarrow> string" where
  "remove_comments code = re_sub_empty block_comment_re (re_sub_empty line_comment_re code)"

text \<open>The patterns of \<open>check_syntax\<close>, in the order of the checks.\<close>

definition kw_re :: "string \<Rightarrow> re" where
  \<comment> \<open>\<open>\bkw\b\<close>\<close>
  "kw_re kw = seqs [WordB, Lit kw, WordB]"

definition module_decl_re :: re where
  \<comment> \<open>\<open>\bmodule\s+\w+\<close>\<close>
  "module_decl_re = seqs [WordB, Lit ''module'', Many is_space 1, Many is_word 1]"

definition module_re :: re where
  \<comment> \<open>\<open>\bmodule\s+\<close>\<close>
  "module_re = seqs [WordB, Lit ''module'', Many is_space 1]"

definition case_re :: re where
  \<comment> \<open>\<open>\bcase[xz]?\b\<close>\<close>
  "case_re = seqs [WordB, Lit ''case'', Opt (Cls (\<lambda>c. c = CHR ''x'' \<or> c = CHR ''z'')), WordB]"

definition invalid_port_re :: re where
  \<comment> \<open>\<open>(input|output|inout)\s+[^\w\s\[\]]+\<close>\<close>
  "invalid_port_re =
     seqs [Grp 1 (alts [''input'', ''output'', ''inout'']), Many is_space 1,
           Many (\<lambda>c. \<not> is_word c \<and> \<not> is_space c \<and> c \<noteq> CHR ''['' \<and> c \<noteq> CHR '']'') 1]"

definition module_content_re :: re where
  \<comment> \<open>\<open>module\s+\w+.*?endmodule\<close> with DOTALL\<close>
  "module_content_re =
     seqs [Lit ''module'', Many is_space 1, Many is_word 1, Lazy any_char, Lit ''endmodule'']"

definition has_ports_re :: re where
  \<comment> \<open>\<open>(input|output|inout)\<close>\<close>
  "has_ports_re = Grp 1 (alts [''input'', ''output'', ''inout''])"

definition has_logic_re :: re where
  \<comment> \<open>\<open>(always|assign|initial|\w+\s+\w+\s*\()\<close>\<close>
  "has_logic_re =
     Grp 1 (Alt (Lit ''always'') (Alt (Lit ''assign'') (Alt (Lit ''initial'')
       (seqs [Many is_word 1, Many is_space 1, Many is_word 1, Many is_space 0, Lit ''('']))))"

definition statement_re :: re where
  \<comment> \<open>\<open>(input|output|inout|wire|reg|parameter|assign|integer|real)\s+\<close>\<close>
  "statement_re =
     seqs [Grp 1 (alts [''input'', ''output'', ''inout'', ''wire'', ''reg'', ''parameter'',
                        ''assign'', ''integer'', ''real'']), Many is_space 1]"

definition count_matches :: "re \<Rightarrow> string \<Rightarrow> nat" where
  "count_matches r code = length (finditer r code)"

text \<open>Checks 1, 2, 4, 5 and 6 append to \<open>errors\<close>; check 3 appends to \<open>warnings\<close>.\<close>

definition check_module_decl :: "string \<Rightarrow> string list" where
  "check_module_decl code =
     (if re_search module_decl_re code = None then [''ERROR: No module declaration found'']
      else [])"

definition module_count :: "string \<Rightarrow> nat" where
  "module_count code = count_matches module_re code"

definition endmodule_count :: "string \<Rightarrow> nat" where
  "endmodule_count code = count_matches (kw_re ''endmodule'') code"

definition check_module_matching :: "string \<Rightarrow> string list" where
  "check_module_matching code =
     (if module_count code \<noteq> endmodule_count code then
        [''ERROR: Module/endmodule mismatch (found '' @ str_nat (module_count code)
         @ '' module(s) but '' @ str_nat (endmodule_count code) @ '' endmodule(s))'']
      else [])"

definition begin_count :: "string \<Rightarrow> nat" where
  "begin_count code = count_matches (kw_re ''begin'') code"

definition end_count :: "string \<Rightarrow> nat" where
  "end_count code = count_matches (kw_re ''end'') code"

definition check_begin_end :: "string \<Rightarrow> string list" where
  "check_begin_end code =
     (if begin_count code \<noteq> end_count code then
        [''WARNING: Begin/end mismatch (found '' @ str_nat (begin_count code)
         @ '' begin(s) but '' @ str_nat (end_count code) @ '' end(s))'']
      else [])"

definition check_case :: "string \<Rightarrow> string list" where
  "check_case code =
     (let case_count = count_matches case_re code;
          endcase_count = count_matches (kw_re ''endcase'') code
      in if case_count \<noteq> endcase_count then
           [''ERROR: Case/endcase mismatch (found '' @ str_nat case_count
            @ '' case(s) but '' @ str_nat endcase_count @ '' endcase(s))'']
         else [])"

definition check_function :: "string \<Rightarrow> string list" where
  "check_function code =
     (if count_matches (kw_re ''function'') code \<noteq> count_matches (kw_re ''endfunction'') code
      then [''ERROR: Function/endfunction mismatch''] else [])"

definition check_task :: "string \<Rightarrow> string list" where
  "check_task code =
     (if count_matches (kw_re ''task'') code \<noteq> count_matches (kw_re ''endtask'') code
      then [''ERROR: Task/endtask mismatch''] else [])"

text \<open>
  Checks 7 and 8: the running balance over all lines. In a line, a closing character that
  makes the balance negative appends an error and leaves the rest of that line unread
  (\<open>break\<close>); the balance is carried to the next line as it is.
\<close>

fun scan_line :: "char \<Rightarrow> char \<Rightarrow> int \<Rightarrow> string \<Rightarrow> int \<times> bool" where
  "scan_line opn cls bal [] = (bal, False)"
| "scan_line opn cls bal (c # cs) =
     (if c = opn then scan_line opn cls (bal + 1) cs
      else if c = cls then (if bal - 1 < 0 then (bal - 1, True) else scan_line opn cls (bal - 1) cs)
      else scan_line opn cls bal cs)"

fun scan_lines :: "char \<Rightarrow> char \<Rightarrow> string \<Rightarrow> int \<Rightarrow> nat \<Rightarrow> string list \<Rightarrow> int \<times> string list" where
  "scan_lines opn cls what bal line_num [] = (bal, [])"
| "scan_lines opn cls what bal line_num (line # rest) =
     (let (bal', unmatched) = scan_line opn cls bal line;
          (bal'', errs) = scan_lines opn cls what bal' (line_num + 1) rest
      in (bal'',
          (if unmatched
           then [''ERROR: Unmatched closing '' @ what @ '' at line '' @ str_nat (line_num + 1)]
           else []) @ errs))"

definition check_parens :: "string \<Rightarrow> string list" where
  "check_parens code =
     (let (paren_balance, errs) =
            scan_lines CHR ''('' CHR '')'' ''parenthesis'' 0 0 (split_lines code)
      in errs @ (if 0 < paren_balance
                 then [''ERROR: '' @ str_int paren_balance @ '' unclosed parenthesis/parentheses'']
                 else []))"

definition check_brackets :: "string \<Rightarrow> string list" where
  "check_brackets code =
     (let (bracket_balance, errs) =
            scan_lines CHR ''['' CHR '']'' ''bracket'' 0 0 (split_lines code)
      in errs @ (if 0 < bracket_balance
                 then [''ERROR: '' @ str_int bracket_balance @ '' unclosed bracket(s)'']
                 else []))"

text \<open>
  Checks 9, 11, 12 and 13 append to \<open>warnings\<close>. Check 10 evaluates a search and does
  nothing with the result (\<open>pass\<close>), so it has no part in the model.
\<close>

definition check_invalid_ports :: "string \<Rightarrow> string list" where
  "check_invalid_ports code =
     (if finditer invalid_port_re code \<noteq> [] then
        [''WARNING: Potentially invalid port declarations found'']
      else [])"

definition check_multiple_modules :: "string \<Rightarrow> string list" where
  "check_multiple_modules code =
     (if 1 < module_count code then
        [''INFO: Multiple modules found ('' @ str_nat (module_count code)
         @ ''). Only the first will be used for testbench generation.'']
      else [])"

definition check_empty_module :: "string \<Rightarrow> string list" where
  "check_empty_module code =
     (case re_search module_content_re code of
        None \<Rightarrow> []
      | Some module_content \<Rightarrow>
          (let content = m_text module_content;
               has_ports = (re_search has_ports_re content \<noteq> None);
               has_logic = (re_search has_logic_re content \<noteq> None)
           in if \<not> has_ports \<and> \<not> has_logic then
                [''WARNING: Module appears to be empty (no ports or logic found)'']
              else []))"

definition ends_with_any :: "string list \<Rightarrow> string \<Rightarrow> bool" where
  "ends_with_any sufs s = list_ex (\<lambda>x. suffix x s) sufs"

definition starts_with_any :: "string list \<Rightarrow> string \<Rightarrow> bool" where
  "starts_with_any prefs s = list_ex (\<lambda>x. prefix x s) prefs"

text \<open>
  The loop of check 13 over \<open>enumerate(lines, 1)\<close>: \<open>i\<close> is the 1-based number of the
  line, \<open>rest\<close> the lines after it, so that \<open>lines[i]\<close> is the head of \<open>rest\<close> and
  \<open>i < len(lines)\<close> says that \<open>rest\<close> is not empty.
\<close>

fun check_semicolons :: "nat \<Rightarrow> string list \<Rightarrow> string list" where
  "check_semicolons i [] = []"
| "check_semicolons i (raw # rest) =
     (let line = strip raw in
      (if line \<noteq> [] \<and> \<not> prefix ''//'' line
          \<and> re_match statement_re line \<noteq> None
          \<and> \<not> ends_with_any ['';'', '','', '')'', ''('', ''begin'', ''end''] line
          \<and> rest \<noteq> [] \<and> \<not> starts_with_any ['')'', '',''] (strip (hd rest))
       then [''WARNING: Line '' @ str_nat i @ '' might be missing semicolon: '' @ take 50 line]
       else [])
      @ check_semicolons (i + 1) rest)"

text \<open>\<open>check_syntax\<close>: the messages are the errors followed by the warnings.\<close>

definition syntax_errors :: "string \<Rightarrow> string list" where
  "syntax_errors code =
     check_module_decl code @ check_module_matching code @ check_case code
     @ check_function code @ check_task code @ check_parens code @ check_brackets code"

definition syntax_warnings :: "string \<Rightarrow> string list" where
  "syntax_warnings code =
     check_begin_end code @ check_invalid_ports code @ check_multiple_modules code
     @ check_empty_module code @ check_semicolons 1 (split_lines code)"

definition check_syntax :: "string \<Rightarrow> bool \<times> string list" where
  "check_syntax verilog_code =
     (let code = remove_comments verilog_code;
          errors = syntax_errors code;
          warnings = syntax_warnings code;
          all_messages = errors @ warnings;
          is_valid = (length errors = 0)
      in (is_valid, all_messages))"

text \<open>
  The callers tell the errors among the returned messages by their tag: the editor counts
  them with \<open>msg.startswith("ERROR")\<close>.
\<close>

definition is_error_msg :: "string \<Rightarrow> bool" where
  "is_error_msg msg = prefix ''ERROR'' msg"

text \<open>\<open>get_verilog_version\<close>, on the text as given (comments included).\<close>

definition systemverilog_re :: re where
  "systemverilog_re =
     seqs [WordB, Grp 1 (alts [''logic'', ''always_ff'', ''always_comb'', ''always_latch'',
                               ''interface'', ''class'', ''package'']), WordB]"

definition verilog2001_re :: re where
  "verilog2001_re =
     seqs [WordB, Grp 1 (alts [''localparam'', ''generate'', ''signed'', ''unsigned'']), WordB]"

definition get_verilog_version :: "string \<Rightarrow> string" where
  "get_verilog_version verilog_code =
     (if re_search systemverilog_re verilog_code \<noteq> None then ''SystemVerilog''
      else if re_search verilog2001_re verilog_code \<noteq> None
              \<or> re_search (Lit ''@(*)'') verilog_code \<noteq> None then ''Verilog-2001''
      else ''Verilog-95'')"

section \<open>VerilogParser\<close>

text \<open>
  The \<open>module_info\<close> dict and its entries. A port has \<open>name\<close>, \<open>width\<close>, \<open>msb\<close>,
  \<open>lsb\<close>; a parameter has \<open>name\<close> and \<open>value\<close>; an internal signal has \<open>name\<close> and
  \<open>width\<close>.
\<close>

record port =
  port_name :: string
  port_width :: int
  port_msb :: int
  port_lsb :: int

record param =
  param_name :: string
  param_value :: string

record net =
  net_name :: string
  net_width :: int

record module_info =
  mi_name :: string
  mi_inputs :: "port list"
  mi_outputs :: "port list"
  mi_inouts :: "port list"
  mi_parameters :: "param list"
  mi_regs :: "net list"
  mi_wires :: "net list"

definition module_name_re :: re where
  \<comment> \<open>\<open>module\s+(\w+)\<close>\<close>
  "module_name_re = seqs [Lit ''module'', Many is_space 1, Grp 1 (Many is_word 1)]"

definition param_pattern :: re where
  \<comment> \<open>\<open>parameter\s+(?:\[.*?\]\s+)?(\w+)\s*=\s*([^;,]+)\<close>\<close>
  "param_pattern =
     seqs [Lit ''parameter'', Many is_space 1,
           Opt (seqs [Lit ''['', Lazy not_newline, Lit '']'', Many is_space 1]),
           Grp 1 (Many is_word 1), Many is_space 0, Lit ''='', Many is_space 0,
           Grp 2 (Many (\<lambda>c. c \<noteq> CHR '';'' \<and> c \<noteq> CHR '','') 1)]"

definition range_re :: re where
  \<comment> \<open>\<open>(?:\[(\d+):(\d+)\]\s+)?\<close>\<close>
  "range_re =
     Opt (seqs [Lit ''['', Grp 1 (Many is_digit 1), Lit '':'', Grp 2 (Many is_digit 1),
                Lit '']'', Many is_space 1])"

definition input_pattern :: re where
  \<comment> \<open>\<open>input\s+(?:wire\s+)?(?:\[(\d+):(\d+)\]\s+)?(\w+)\s*[,;)]\<close>\<close>
  "input_pattern =
     seqs [Lit ''input'', Many is_space 1, Opt (seqs [Lit ''wire'', Many is_space 1]),
           range_re, Grp 3 (Many is_word 1), Many is_space 0,
           Cls (\<lambda>c. c = CHR '','' \<or> c = CHR '';'' \<or> c = CHR '')'')]"

definition output_pattern :: re where
  \<comment> \<open>\<open>output\s+(?:reg|wire\s+)?(?:\[(\d+):(\d+)\]\s+)?(\w+)\s*[,;)]\<close>\<close>
  "output_pattern =
     seqs [Lit ''output'', Many is_space 1,
           Opt (Alt (Lit ''reg'') (seqs [Lit ''wire'', Many is_space 1])),
           range_re, Grp 3 (Many is_word 1), Many is_space 0,
           Cls (\<lambda>c. c = CHR '','' \<or> c = CHR '';'' \<or> c = CHR '')'')]"

definition inout_pattern :: re where
  \<comment> \<open>\<open>inout\s+(?:\[(\d+):(\d+)\]\s+)?(\w+)\s*[,;)]\<close>\<close>
  "inout_pattern =
     seqs [Lit ''inout'', Many is_space 1, range_re, Grp 3 (Many is_word 1), Many is_space 0,
           Cls (\<lambda>c. c = CHR '','' \<or> c = CHR '';'' \<or> c = CHR '')'')]"

definition wire_pattern :: re where
  \<comment> \<open>\<open>wire\s+(?:\[(\d+):(\d+)\]\s+)?(\w+)\s*[,;]\<close>\<close>
  "wire_pattern =
     seqs [Lit ''wire'', Many is_space 1, range_re, Grp 3 (Many is_word 1), Many is_space 0,
           Cls (\<lambda>c. c = CHR '','' \<or> c = CHR '';'')]"

definition reg_pattern :: re where
  \<comment> \<open>\<open>reg\s+(?:\[(\d+):(\d+)\]\s+)?(\w+)\s*[,;]\<close>\<close>
  "reg_pattern =
     seqs [Lit ''reg'', Many is_space 1, range_re, Grp 3 (Many is_word 1), Many is_space 0,
           Cls (\<lambda>c. c = CHR '','' \<or> c = CHR '';'')]"

text \<open>\<open>match.group(n)\<close> as a string; a group that took no part is \<open>None\<close>, which is falsy
  like the empty string.\<close>

definition group_str :: "rematch \<Rightarrow> nat \<Rightarrow> string" where
  "group_str m n = (case m_group m n of None \<Rightarrow> [] | Some s \<Rightarrow> s)"

definition has_range :: "rematch \<Rightarrow> bool" where
  "has_range m = (group_str m 1 \<noteq> [] \<and> group_str m 2 \<noteq> [])"

definition range_width :: "rematch \<Rightarrow> int" where
  "range_width m = int_of_digits (group_str m 1) - int_of_digits (group_str m 2) + 1"

definition port_of_match :: "rematch \<Rightarrow> port" where
  "port_of_match m =
     (if has_range m then
        \<lparr> port_name = group_str m 3, port_width = range_width m,
          port_msb = int_of_digits (group_str m 1), port_lsb = int_of_digits (group_str m 2) \<rparr>
      else \<lparr> port_name = group_str m 3, port_width = 1, port_msb = 0, port_lsb = 0 \<rparr>)"

definition net_of_match :: "rematch \<Rightarrow> net" where
  "net_of_match m =
     (if has_range m then \<lparr> net_name = group_str m 3, net_width = range_width m \<rparr>
      else \<lparr> net_name = group_str m 3, net_width = 1 \<rparr>)"

text \<open>The loop over the matches of one port pattern: a name already in the list is skipped.\<close>

fun add_ports :: "port list \<Rightarrow> rematch list \<Rightarrow> port list" where
  "add_ports ports [] = ports"
| "add_ports ports (m # ms) =
     (if list_ex (\<lambda>p. port_name p = group_str m 3) ports then add_ports ports ms
      else add_ports (ports @ [port_of_match m]) ms)"

text \<open>
  The loops over the wire and reg matches: a name is skipped when it is among \<open>taken\<close>
  (for wires the names of the inputs and outputs, for regs the names of the outputs) or in
  the list built so far.
\<close>

fun add_nets :: "string list \<Rightarrow> net list \<Rightarrow> rematch list \<Rightarrow> net list" where
  "add_nets taken nets [] = nets"
| "add_nets taken nets (m # ms) =
     (if list_ex (\<lambda>n. group_str m 3 = n) (taken @ map net_name nets) then add_nets taken nets ms
      else add_nets taken (nets @ [net_of_match m]) ms)"

definition parse_module :: "string \<Rightarrow> module_info" where
  "parse_module verilog_code =
     (let name = (case re_search module_name_re verilog_code of
                    None \<Rightarrow> [] | Some module_match \<Rightarrow> group_str module_match 1);
          parameters =
            map (\<lambda>m. \<lparr> param_name = group_str m 1, param_value = strip (group_str m 2) \<rparr>)
                (finditer param_pattern verilog_code);
          code_no_comments =
            re_sub_empty block_comment_re (re_sub_empty line_comment_re verilog_code);
          inputs = add_ports [] (finditer input_pattern code_no_comments);
          outputs = add_ports [] (finditer output_pattern code_no_comments);
          inouts = add_ports [] (finditer inout_pattern code_no_comments);
          wires = add_nets (map port_name (inputs @ outputs)) []
                    (finditer wire_pattern code_no_comments);
          regs = add_nets (map port_name outputs) [] (finditer reg_pattern code_no_comments)
      in \<lparr> mi_name = name, mi_inputs = inputs, mi_outputs = outputs, mi_inouts = inouts,
           mi_parameters = parameters, mi_regs = regs, mi_wires = wires \<rparr>)"

section \<open>TestbenchGenerator\<close>




















section \<open>VCDParser\<close>

text \<open>
  The fields of a \<open>VCDParser\<close> instance. \<open>signals\<close> is a dict from identifier to signal,
  kept in insertion order. \<open>timescale\<close> is a float in the source, the product of the
  integer read and the factor of the unit; the model keeps the two factors, the pair
  \<open>(v, e)\<close> standing for \<open>v\<close> times ten to the power \<open>-e\<close>, and does not multiply.
\<close>

record vcd_parser =
  vp_timescale :: "int \<times> nat"
  vp_signals :: "(string \<times> signal) list"
  vp_changes :: "(int \<times> string \<times> string) list"
  vp_scope_hierarchy :: "string list"

text \<open>\<open>__init__\<close>\<close>

definition new_parser :: vcd_parser where
  "new_parser = \<lparr> vp_timescale = (1, 0), vp_signals = [], vp_changes = [],
                   vp_scope_hierarchy = [] \<rparr>"

text \<open>\<open>d[k] = v\<close>: an existing key keeps its place.\<close>

definition dict_set :: "'k \<Rightarrow> 'v \<Rightarrow> ('k \<times> 'v) list \<Rightarrow> ('k \<times> 'v) list" where
  "dict_set k v d =
     (if k \<in> set (map fst d) then map (\<lambda>(k', v'). if k' = k then (k', v) else (k', v')) d
      else d @ [(k, v)])"

definition timescale_re :: re where
  \<comment> \<open>\<open>(\d+)\s*(\w+)\<close>\<close>
  "timescale_re = seqs [Grp 1 (Many is_digit 1), Many is_space 0, Grp 2 (Many is_word 1)]"

definition unit_exponent :: "string \<Rightarrow> nat" where
  \<comment> \<open>\<open>unit_map.get(scale_unit, 1e-9)\<close>\<close>
  "unit_exponent u =
     (if u = ''s'' then 0 else if u = ''ms'' then 3 else if u = ''us'' then 6
      else if u = ''ns'' then 9 else if u = ''ps'' then 12 else if u = ''fs'' then 15 else 9)"

text \<open>
  The two appends of a value line: to the signal's own \<open>values\<close> and to \<open>self.changes\<close>,
  when the identifier is in \<open>self.signals\<close>. The \<open>print\<close> calls of the source write to
  the standard output only and are left out.
\<close>

definition record_change :: "vcd_parser \<Rightarrow> int \<Rightarrow> string \<Rightarrow> string \<Rightarrow> vcd_parser" where
  "record_change self current_time identifier val =
     (if identifier \<in> set (map fst (vp_signals self)) then
        self \<lparr> vp_signals :=
                 map (\<lambda>(k, sg). if k = identifier
                                 then (k, sg \<lparr> values_of := values_of sg @ [(current_time, val)] \<rparr>)
                                 else (k, sg)) (vp_signals self),
               vp_changes := vp_changes self @ [(current_time, identifier, val)] \<rparr>
      else self)"

text \<open>
  The body of the loop over the lines, on the state \<open>(self, in_header, current_time)\<close>.
  The two \<open>int\<close> conversions can raise \<open>ValueError\<close>.
\<close>

definition parse_line :: "vcd_parser \<times> bool \<times> int \<Rightarrow> string \<Rightarrow> py_error + vcd_parser \<times> bool \<times> int" where
  "parse_line st raw =
     (case st of (self, in_header, current_time) \<Rightarrow>
      (let line = strip raw in
       if line = [] then Inr st
       else if prefix ''$timescale'' line then
         (case re_search timescale_re line of
            None \<Rightarrow> Inr st
          | Some m \<Rightarrow>
              Inr (self \<lparr> vp_timescale :=
                           (int_of_digits (group_str m 1), unit_exponent (group_str m 2)) \<rparr>,
                   in_header, current_time))
       else if prefix ''$scope'' line then
         (let parts = split_ws line in
          if 3 \<le> length parts then
            Inr (self \<lparr> vp_scope_hierarchy := vp_scope_hierarchy self @ [parts ! 2] \<rparr>,
                 in_header, current_time)
          else Inr st)
       else if prefix ''$upscope'' line then
         (if vp_scope_hierarchy self \<noteq> [] then
            Inr (self \<lparr> vp_scope_hierarchy := butlast (vp_scope_hierarchy self) \<rparr>,
                 in_header, current_time)
          else Inr st)
       else if prefix ''$var'' line then
         (let parts = split_ws line in
          if 5 \<le> length parts then
            (case py_int (parts ! 2) of
               None \<Rightarrow> Inl ValueError
             | Some w \<Rightarrow>
                 Inr (self \<lparr> vp_signals :=
                              dict_set (parts ! 3)
                                \<lparr> sig_name = parts ! 4,
                                  full_name = join ''.'' (vp_scope_hierarchy self @ [parts ! 4]),
                                  width = w, var_type = parts ! 1, values_of = [] \<rparr>
                                (vp_signals self) \<rparr>,
                      in_header, current_time))
          else Inr st)
       else if prefix ''$enddefinitions'' line then Inr (self, False, current_time)
       else if \<not> in_header then
         (if prefix ''#'' line then
            (case py_int (tl line) of
               None \<Rightarrow> Inl ValueError
             | Some t \<Rightarrow> Inr (self, in_header, t))
          else if hd line \<in> set ''01xzXZ'' then
            Inr (record_change self current_time (strip (tl line)) [hd line],
                 in_header, current_time)
          else if hd line = CHR ''b'' then
            (let parts = split_ws line in
             if 2 \<le> length parts then
               Inr (record_change self current_time (parts ! 1) (tl (parts ! 0)),
                    in_header, current_time)
             else Inr st)
          else Inr st)
       else Inr st))"

fun parse_lines :: "vcd_parser \<times> bool \<times> int \<Rightarrow> string list \<Rightarrow> py_error + vcd_parser \<times> bool \<times> int" where
  "parse_lines st [] = Inr st"
| "parse_lines st (l # ls) =
     (case parse_line st l of Inl e \<Rightarrow> Inl e | Inr st' \<Rightarrow> parse_lines st' ls)"

text \<open>
  \<open>parse\<close>: the file is \<open>None\<close> when the path does not exist, and otherwise the list of
  its lines as \<open>readlines\<close> returns them. The result is the instance after the call and
  the returned pair, which are the instance's own \<open>signals\<close> and \<open>changes\<close>.
\<close>

type_synonym vcd_result = "(string \<times> signal) list \<times> (int \<times> string \<times> string) list"

definition parse :: "vcd_parser \<Rightarrow> string list option \<Rightarrow> py_error + vcd_parser \<times> vcd_result" where
  "parse self vcd_file =
     (case vcd_file of
        None \<Rightarrow> Inr (self, ([], []))
      | Some lines \<Rightarrow>
          (case parse_lines (self, True, 0) lines of
             Inl e \<Rightarrow> Inl e
           | Inr (self', in_header, current_time) \<Rightarrow>
               Inr (self', (vp_signals self', vp_changes self'))))"

text \<open>
  One instance used for several files in turn: \<open>parse_after earlier f\<close> is what
  \<open>parse\<close> returns for \<open>f\<close> on an instance that was constructed and then used to parse
  the files \<open>earlier\<close>, in order.
\<close>

fun parse_all :: "vcd_parser \<Rightarrow> string list option list \<Rightarrow> py_error + vcd_parser" where
  "parse_all self [] = Inr self"
| "parse_all self (f # fs) =
     (case parse self f of Inl e \<Rightarrow> Inl e | Inr (self', r) \<Rightarrow> parse_all self' fs)"

definition parse_after :: "string list option list \<Rightarrow> string list option \<Rightarrow> py_error + vcd_result" where
  "parse_after earlier f =
     (case parse_all new_parser earlier of
        Inl e \<Rightarrow> Inl e
      | Inr self \<Rightarrow> (case parse self f of Inl e \<Rightarrow> Inl e | Inr (self', r) \<Rightarrow> Inr r))"

text \<open>Sample inputs, for concrete evaluation.\<close>

definition sample_vcd :: "string list" where
  "sample_vcd =
     [''$timescale 1ns $end\<newline>'',
      ''$scope module tb $end\<newline>'',
      ''$var wire 1 ! a $end\<newline>'',
      ''$upscope $end\<newline>'',
      ''$enddefinitions $end\<newline>'',
      ''#0\<newline>'',
      ''1!\<newline>'']"

definition sample_signal :: signal where
  "sample_signal = \<lparr> sig_name = ''a'', full_name = ''tb.a'', width = 1, var_type = ''wire'',
                      values_of = [(0, ''1'')] \<rparr>"


definition mixed_src :: string where
  "mixed_src = ''  wire w\<newline>module m(input a, output b);\<newline>  assign b = a);\<newline>endmodule\<newline>''"


definition commented_src :: string where
  "commented_src =
     ''// module old_name\<newline>module bar(input a);\<newline>  // parameter Q = 2;\<newline>endmodule\<newline>''"


text \<open>What an instance keeps from one state to a later one: its change log as a prefix
  and its identifiers.\<close>

definition carries_over :: "vcd_parser \<Rightarrow> vcd_parser \<Rightarrow> bool" where
  "carries_over self self' =
     (prefix (vp_changes self) (vp_changes self')
      \<and> set (map fst (vp_signals self)) \<subseteq> set (map fst (vp_signals self')))"

section \<open>Scanning a text by tokens and by balance\<close>









definition hdclosed :: "string \<Rightarrow> bool" where
  "hdclosed s = (case s of [] \<Rightarrow> True | c # _ \<Rightarrow> \<not> is_word c)"



section \<open>The generated testbench without its comments\<close>













section \<open>Properties of the trace query\<close>






section \<open>Properties of the logic analysis\<close>

lemma py_max_key_mem: "py_max_key key xs = Some m \<Longrightarrow> m \<in> set xs"
proof -
  have fold_mem: "foldl (\<lambda>best y. if key best < key y then y else best) x rest \<in> set (x # rest)"
    for x :: 'a and rest
    by (induction rest arbitrary: x) (auto split: if_splits)
  show "py_max_key key xs = Some m \<Longrightarrow> m \<in> set xs"
    using fold_mem by (cases xs) (auto simp: py_max_key_def)
qed

lemma group_samples_inv:
  assumes "\<forall>(k, outs) \<in> set data. set k \<subseteq> V \<and> set outs \<subseteq> V"
    and "\<forall>s \<in> set ss. set (sample_inputs s) \<subseteq> V \<and> sample_output s \<in> V"
  shows "\<forall>(k, outs) \<in> set (group_samples data ss). set k \<subseteq> V \<and> set outs \<subseteq> V"
  using assms
proof (induction ss arbitrary: data)
  case Nil
  then show ?case by simp
next
  case (Cons s ss)
  let ?d1 = "if map_of data (sample_inputs s) = None
             then data @ [(sample_inputs s, [])] else data"
  let ?d2 = "map (\<lambda>(k, outs). if k = sample_inputs s then (k, outs @ [sample_output s])
                               else (k, outs)) ?d1"
  from Cons.prems have d1: "\<forall>(k, outs) \<in> set ?d1. set k \<subseteq> V \<and> set outs \<subseteq> V"
    by auto
  from Cons.prems have s: "sample_output s \<in> V" by simp
  have d2: "\<forall>(k, outs) \<in> set ?d2. set k \<subseteq> V \<and> set outs \<subseteq> V"
  proof (clarify)
    fix k outs assume "(k, outs) \<in> set ?d2"
    then obtain k' outs' where mem: "(k', outs') \<in> set ?d1"
      and eq: "(k, outs) = (if k' = sample_inputs s then (k', outs' @ [sample_output s])
                            else (k', outs'))"
      by auto
    from d1 mem have "set k' \<subseteq> V \<and> set outs' \<subseteq> V" by blast
    with eq s show "set k \<subseteq> V \<and> set outs \<subseteq> V"
      by (cases "k' = sample_inputs s") auto
  qed
  from Cons.prems have rest: "\<forall>s \<in> set ss. set (sample_inputs s) \<subseteq> V \<and> sample_output s \<in> V"
    by simp
  from Cons.IH [OF d2 rest] show ?case by (simp add: Let_def)
qed

lemma consolidate_inv:
  assumes "\<forall>xs. set (iter xs) = set xs"
    and "consolidate iter data = Inr tt"
    and "\<forall>(k, outs) \<in> set data. set k \<subseteq> V \<and> set outs \<subseteq> V"
  shows "\<forall>(k, v) \<in> set tt. set k \<subseteq> V \<and> v \<in> V"
  using assms(2,3)
proof (induction data arbitrary: tt)
  case Nil
  then show ?case by simp
next
  case (Cons p data)
  obtain k outs where p: "p = (k, outs)" by (cases p)
  from Cons.prems(1) p obtain mc tt' where mc: "most_common iter outs = Some mc"
    and tt': "consolidate iter data = Inr tt'" and tt: "tt = (k, mc) # tt'"
    by (auto split: option.splits sum.splits)
  from mc have "mc \<in> set (iter outs)"
    by (simp add: most_common_def py_max_key_mem)
  with assms(1) have "mc \<in> set outs" by simp
  with Cons.prems(2) p have head: "set k \<subseteq> V \<and> mc \<in> V" by auto
  from Cons.IH [OF tt'] Cons.prems(2) have "\<forall>(k, v) \<in> set tt'. set k \<subseteq> V \<and> v \<in> V"
    by simp
  with head tt show ?case by simp
qed

text \<open>
  C8. Whenever \<open>analyze_combinational_logic\<close> builds a truth table, every key is a tuple of
  values from \<open>0\<close>, \<open>1\<close> and every output is \<open>0\<close> or \<open>1\<close>: samples with any other fetched
  value are dropped before the grouping. The iteration order \<open>iter\<close> of the runtime's sets
  is arbitrary, as long as it enumerates the elements of the set.
\<close>

theorem truth_table_binary:
  assumes "\<forall>xs. set (iter xs) = set xs"
    and "analyze_combinational_logic iter signals = Inr (Some a)"
  shows "\<forall>(k, v) \<in> set (an_truth_table a). set k \<subseteq> {''0'', ''1''} \<and> v \<in> {''0'', ''1''}"
proof -
  let ?inputs = "map snd (butlast signals)"
  let ?output = "snd (last signals)"
  let ?samples = "filter valid_sample
     (map (take_sample ?inputs ?output) (time_points (?inputs @ [?output])))"
  from assms(2) obtain tt where c: "consolidate iter (group_samples [] ?samples) = Inr tt"
    and a: "an_truth_table a = tt"
    by (auto simp: analyze_combinational_logic_def Let_def split: if_splits sum.splits)
  have "\<forall>s \<in> set ?samples. set (sample_inputs s) \<subseteq> {''0'', ''1''}
          \<and> sample_output s \<in> {''0'', ''1''}"
    by (auto simp: valid_sample_def)
  then have "\<forall>(k, outs) \<in> set (group_samples [] ?samples).
      set k \<subseteq> {''0'', ''1''} \<and> set outs \<subseteq> {''0'', ''1''}"
    by (intro group_samples_inv) simp_all
  from consolidate_inv [OF assms(1) c this] a show ?thesis by simp
qed

theorem truth_table_binary_witness:
  "(\<forall>xs :: string list. set (remdups xs) = set xs)
   \<and> analyze_combinational_logic remdups and_trace = Inr (Some and_analysis)
   \<and> list_all (\<lambda>(k, v). set k \<subseteq> {''0'', ''1''} \<and> v \<in> {''0'', ''1''})
        (an_truth_table and_analysis)"
proof -
  have h1: "\<forall>xs :: string list. set (remdups xs) = set xs" by simp
  have h2: "analyze_combinational_logic remdups and_trace = Inr (Some and_analysis)"
    by code_simp
  from truth_table_binary [OF h1 h2] h1 h2 show ?thesis
    unfolding list_all_iff by blast
qed

text \<open>
  C9. For a truth table that is exactly (0,0) to 0, (0,1) to 0, (1,0) to 0, (1,1) to 1,
  whatever the insertion order of the dict, \<open>detect_gate_type\<close> with two inputs returns the
  AND label, and \<open>verify_gate_logic\<close> on that label and table finds no mismatch: its error
  list is empty, the report carries the line that all combinations are verified, and no
  line with the cross mark appears.
\<close>

theorem and_gate_detected_and_verified:
  assumes "map_of tt = map_of (table2 ''0'' ''0'' ''0'' ''1'')"
  shows "detect_gate_type tt 2 = ''AND Gate''
    \<and> verify_errors ''AND'' (table2 ''0'' ''0'' ''0'' ''1'') tt = []
    \<and> contains ''ALL COMBINATIONS VERIFIED CORRECT!''
         (verify_gate_logic (detect_gate_type tt 2) tt 2)
    \<and> \<not> contains cross_mark (verify_gate_logic (detect_gate_type tt 2) tt 2)"
proof -
  have d: "detect_gate_type tt 2 = ''AND Gate''"
    by (simp add: detect_gate_type_def tt_get_def assms table2_def)
  have e: "verify_errors ''AND'' (table2 ''0'' ''0'' ''0'' ''1'') tt = []"
    by (simp add: verify_errors_def tt_get_def assms table2_def)
  have v: "verify_gate_logic ''AND Gate'' tt 2 = ''VERIFICATION:\<newline>'' @
        rules_header ''AND'' @
        rule_ok ''0 AND 0 = 0'' @ rule_ok ''0 AND 1 = 0'' @
        rule_ok ''1 AND 0 = 0'' @ rule_ok ''1 AND 1 = 1'' @
        rule_line ''Output = 1 ONLY when ALL inputs = 1'' @
        rule_line ''Output = 0 if ANY input = 0'' @ verify_report []"
    by (simp add: verify_gate_logic_def e)
  have c1: "contains ''ALL COMBINATIONS VERIFIED CORRECT!''
      (verify_gate_logic (detect_gate_type tt 2) tt 2)"
    unfolding d v
    by (simp add: rules_header_def rule_ok_def rule_line_def verify_report_def
        check_mark_def bullet_def)
  have c2: "\<not> contains cross_mark (verify_gate_logic (detect_gate_type tt 2) tt 2)"
    unfolding d v
    by (simp add: rules_header_def rule_ok_def rule_line_def verify_report_def
        check_mark_def bullet_def cross_mark_def)
  from d e c1 c2 show ?thesis by simp
qed

theorem and_gate_detected_and_verified_witness:
  "map_of [([''1'', ''1''], ''1''), ([''0'', ''0''], ''0''), ([''1'', ''0''], ''0''),
           ([''0'', ''1''], ''0'')] = map_of (table2 ''0'' ''0'' ''0'' ''1'')
   \<and> detect_gate_type [([''1'', ''1''], ''1''), ([''0'', ''0''], ''0''), ([''1'', ''0''], ''0''),
           ([''0'', ''1''], ''0'')] 2 = ''AND Gate''
   \<and> verify_errors ''AND'' (table2 ''0'' ''0'' ''0'' ''1'')
        [([''1'', ''1''], ''1''), ([''0'', ''0''], ''0''), ([''1'', ''0''], ''0''),
         ([''0'', ''1''], ''0'')] = []"
proof -
  have h: "map_of [([''1'', ''1''], ''1''), ([''0'', ''0''], ''0''), ([''1'', ''0''], ''0''),
           ([''0'', ''1''], ''0'')] = map_of (table2 ''0'' ''0'' ''0'' ''1'')"
    by (auto simp: table2_def fun_eq_iff)
  from and_gate_detected_and_verified [OF h] h show ?thesis by simp
qed

section \<open>Properties of the syntax checker\<close>

lemma scan_lines_errors:
  "scan_lines opn cls what bal n lines = (b, errs) \<Longrightarrow> m \<in> set errs \<Longrightarrow> is_error_msg m"
proof (induction lines arbitrary: bal n b errs)
  case Nil
  then show ?case by simp
next
  case (Cons line rest)
  obtain bal' unmatched where l: "scan_line opn cls bal line = (bal', unmatched)"
    by (cases "scan_line opn cls bal line")
  obtain b' errs' where r: "scan_lines opn cls what bal' (n + 1) rest = (b', errs')"
    by (cases "scan_lines opn cls what bal' (n + 1) rest")
  from Cons.prems(1) l r have errs: "errs =
      (if unmatched
       then [''ERROR: Unmatched closing '' @ what @ '' at line '' @ str_nat (n + 1)]
       else []) @ errs'"
    by simp
  show ?case
  proof (cases "m \<in> set errs'")
    case True
    with Cons.IH [OF r] show ?thesis .
  next
    case False
    with Cons.prems(2) errs
    have "m = ''ERROR: Unmatched closing '' @ what @ '' at line '' @ str_nat (n + 1)"
      by (auto split: if_splits)
    then show ?thesis by (simp add: is_error_msg_def)
  qed
qed

lemma check_parens_errors: "m \<in> set (check_parens code) \<Longrightarrow> is_error_msg m"
proof -
  obtain b errs
    where s: "scan_lines CHR ''('' CHR '')'' ''parenthesis'' 0 0 (split_lines code) = (b, errs)"
    by (cases "scan_lines CHR ''('' CHR '')'' ''parenthesis'' 0 0 (split_lines code)")
  assume "m \<in> set (check_parens code)"
  with s have "m \<in> set errs \<or> m = ''ERROR: '' @ str_int b @ '' unclosed parenthesis/parentheses''"
    by (auto simp: check_parens_def split: if_splits)
  with scan_lines_errors [OF s] show ?thesis by (auto simp: is_error_msg_def)
qed

lemma check_brackets_errors: "m \<in> set (check_brackets code) \<Longrightarrow> is_error_msg m"
proof -
  obtain b errs
    where s: "scan_lines CHR ''['' CHR '']'' ''bracket'' 0 0 (split_lines code) = (b, errs)"
    by (cases "scan_lines CHR ''['' CHR '']'' ''bracket'' 0 0 (split_lines code)")
  assume "m \<in> set (check_brackets code)"
  with s have "m \<in> set errs \<or> m = ''ERROR: '' @ str_int b @ '' unclosed bracket(s)''"
    by (auto simp: check_brackets_def split: if_splits)
  with scan_lines_errors [OF s] show ?thesis by (auto simp: is_error_msg_def)
qed

lemma syntax_errors_are_errors: "m \<in> set (syntax_errors code) \<Longrightarrow> is_error_msg m"
  unfolding syntax_errors_def
  by (auto simp: check_module_decl_def check_module_matching_def check_case_def Let_def
      check_function_def check_task_def is_error_msg_def
      dest: check_parens_errors check_brackets_errors split: if_splits)

lemma check_semicolons_warnings:
  "m \<in> set (check_semicolons i lines) \<Longrightarrow> \<not> is_error_msg m"
  by (induction lines arbitrary: i) (auto simp: is_error_msg_def Let_def split: if_splits)

lemma syntax_warnings_not_errors: "m \<in> set (syntax_warnings code) \<Longrightarrow> \<not> is_error_msg m"
  unfolding syntax_warnings_def
  by (auto simp: check_begin_end_def check_invalid_ports_def check_multiple_modules_def
      check_empty_module_def Let_def is_error_msg_def
      dest: check_semicolons_warnings split: if_splits option.splits)

lemma check_syntax_parts:
  "check_syntax src =
     (syntax_errors (remove_comments src) = [],
      syntax_errors (remove_comments src) @ syntax_warnings (remove_comments src))"
  by (simp add: check_syntax_def Let_def)




text \<open>
  C10. In the list that \<open>check_syntax\<close> returns, every error message stands before every
  message that is not an error, wherever the offending constructs are in the source.
\<close>

theorem errors_precede_warnings:
  "\<forall>i j. i < length (snd (check_syntax src)) \<and> j < length (snd (check_syntax src))
       \<and> is_error_msg (snd (check_syntax src) ! i) \<and> \<not> is_error_msg (snd (check_syntax src) ! j)
       \<longrightarrow> i < j"
proof (intro allI impI)
  fix i j
  let ?es = "syntax_errors (remove_comments src)"
  let ?ws = "syntax_warnings (remove_comments src)"
  assume a: "i < length (snd (check_syntax src)) \<and> j < length (snd (check_syntax src))
       \<and> is_error_msg (snd (check_syntax src) ! i) \<and> \<not> is_error_msg (snd (check_syntax src) ! j)"
  have msgs: "snd (check_syntax src) = ?es @ ?ws" by (simp add: check_syntax_parts)
  have i: "i < length ?es"
  proof (rule ccontr)
    assume "\<not> i < length ?es"
    with a msgs have "i - length ?es < length ?ws" by auto
    then have "?ws ! (i - length ?es) \<in> set ?ws" by (rule nth_mem)
    with \<open>\<not> i < length ?es\<close> have "(?es @ ?ws) ! i \<in> set ?ws" by (simp add: nth_append)
    with a msgs show False by (auto dest: syntax_warnings_not_errors)
  qed
  have j: "\<not> j < length ?es"
  proof
    assume "j < length ?es"
    then have "(?es @ ?ws) ! j \<in> set ?es" by (simp add: nth_append)
    with a msgs show False by (auto dest: syntax_errors_are_errors)
  qed
  from i j show "i < j" by simp
qed

theorem errors_precede_warnings_witness:
  "snd (check_syntax mixed_src) =
     [''ERROR: Unmatched closing parenthesis at line 3'',
      ''WARNING: Line 1 might be missing semicolon: wire w'']
   \<and> is_error_msg (snd (check_syntax mixed_src) ! 0)
   \<and> \<not> is_error_msg (snd (check_syntax mixed_src) ! 1)
   \<and> (0::nat) < 1"
proof -
  have e: "snd (check_syntax mixed_src) =
     [''ERROR: Unmatched closing parenthesis at line 3'',
      ''WARNING: Line 1 might be missing semicolon: wire w'']"
    by code_simp
  have "is_error_msg (snd (check_syntax mixed_src) ! 0)
      \<and> \<not> is_error_msg (snd (check_syntax mixed_src) ! 1)"
    unfolding e by (simp add: is_error_msg_def)
  with errors_precede_warnings [of mixed_src] e show ?thesis by simp
qed

section \<open>Properties of the module parser\<close>







text \<open>
  C6. The module name and the parameters are searched in the text as given, comments
  included, while the ports and the internal signals are searched in the text without
  comments: a \<open>module\<close> and a \<open>parameter\<close> that stand only in comments are returned, and
  the result differs from that on the comment-free text.
\<close>

theorem parse_module_reads_comments:
  "mi_name (parse_module commented_src) = ''old_name''
   \<and> map param_name (mi_parameters (parse_module commented_src)) = [''Q'']
   \<and> mi_name (parse_module (remove_comments commented_src)) = ''bar''
   \<and> mi_parameters (parse_module (remove_comments commented_src)) = []
   \<and> parse_module commented_src \<noteq> parse_module (remove_comments commented_src)"
proof -
  have a: "parse_module commented_src =
     \<lparr> mi_name = ''old_name'',
       mi_inputs = [\<lparr> port_name = ''a'', port_width = 1, port_msb = 0, port_lsb = 0 \<rparr>],
       mi_outputs = [], mi_inouts = [],
       mi_parameters = [\<lparr> param_name = ''Q'', param_value = ''2'' \<rparr>],
       mi_regs = [], mi_wires = [] \<rparr>"
    by code_simp
  have b: "parse_module (remove_comments commented_src) =
     \<lparr> mi_name = ''bar'',
       mi_inputs = [\<lparr> port_name = ''a'', port_width = 1, port_msb = 0, port_lsb = 0 \<rparr>],
       mi_outputs = [], mi_inouts = [], mi_parameters = [], mi_regs = [], mi_wires = [] \<rparr>"
    by code_simp
  show ?thesis unfolding a b by simp
qed

section \<open>Properties of the VCD parser\<close>

lemma record_change_keeps: "carries_over self (record_change self t i v)"
  by (force simp: record_change_def carries_over_def split: if_splits)

lemma dict_set_keeps:
  "carries_over self (self \<lparr> vp_signals := dict_set k v (vp_signals self) \<rparr>)"
  by (force simp: dict_set_def carries_over_def split: if_splits)

lemma other_fields_keep:
  "carries_over self self"
  "carries_over self (self \<lparr> vp_timescale := ts \<rparr>)"
  "carries_over self (self \<lparr> vp_scope_hierarchy := sc \<rparr>)"
  by (simp_all add: carries_over_def)

lemma carries_over_trans:
  "carries_over a b \<Longrightarrow> carries_over b c \<Longrightarrow> carries_over a c"
  unfolding carries_over_def by (meson prefix_order.trans subset_trans)

lemma parse_line_keeps:
  assumes "parse_line (self, h, t) l = Inr (self', h', t')"
  shows "carries_over self self'"
  using assms
  by (auto simp: parse_line_def Let_def split: if_splits option.splits
      intro: record_change_keeps dict_set_keeps other_fields_keep)

lemma parse_lines_keeps:
  assumes "parse_lines (self, h, t) ls = Inr (self', h', t')"
  shows "carries_over self self'"
  using assms
proof (induction ls arbitrary: self h t)
  case Nil
  then show ?case by (simp add: other_fields_keep)
next
  case (Cons l ls)
  from Cons.prems obtain self1 h1 t1 where l: "parse_line (self, h, t) l = Inr (self1, h1, t1)"
    and r: "parse_lines (self1, h1, t1) ls = Inr (self', h', t')"
    by (auto split: sum.splits)
  from parse_line_keeps [OF l] Cons.IH [OF r] show ?case
    by (rule carries_over_trans)
qed

text \<open>
  Parsing the sample trace on an instance that has already parsed it returns a change log
  with every change twice, unlike parsing it on a new instance.
\<close>

theorem parse_reused_counterexample:
  "parse_after [] (Some sample_vcd) = Inr ([(''!'', sample_signal)], [(0, ''!'', ''1'')])
   \<and> parse_after [Some sample_vcd] (Some sample_vcd)
       = Inr ([(''!'', sample_signal)], [(0, ''!'', ''1''), (0, ''!'', ''1'')])
   \<and> parse_after [Some sample_vcd] (Some sample_vcd) \<noteq> parse_after [] (Some sample_vcd)"
proof -
  have a: "parse_after [] (Some sample_vcd) = Inr ([(''!'', sample_signal)], [(0, ''!'', ''1'')])"
    by code_simp
  have b: "parse_after [Some sample_vcd] (Some sample_vcd)
       = Inr ([(''!'', sample_signal)], [(0, ''!'', ''1''), (0, ''!'', ''1'')])"
    by code_simp
  show ?thesis unfolding a b by simp
qed

text \<open>
  C2, as the code has it. The signal table and the change log are fields of the parser
  instance and are never reset: whenever \<open>parse\<close> returns for an existing file, the pair it
  returns is the instance's own table and log after the call, the log begins with the whole
  log that the instance held before the call, and every identifier that was in the table
  before the call is still in it.
\<close>

theorem parse_accumulates:
  assumes "parse self (Some lines) = Inr (self', (sigs, chgs))"
  shows "sigs = vp_signals self' \<and> chgs = vp_changes self'
    \<and> prefix (vp_changes self) chgs
    \<and> set (map fst (vp_signals self)) \<subseteq> set (map fst sigs)"
proof -
  from assms obtain h t where p: "parse_lines (self, True, 0) lines = Inr (self', h, t)"
    and r: "sigs = vp_signals self'" "chgs = vp_changes self'"
    by (auto simp: parse_def split: sum.splits)
  from parse_lines_keeps [OF p] r show ?thesis by (simp add: carries_over_def)
qed

theorem parse_accumulates_witness:
  "parse \<lparr> vp_timescale = (1, 9), vp_signals = [(''!'', sample_signal)],
           vp_changes = [(0, ''!'', ''1'')], vp_scope_hierarchy = [] \<rparr> (Some sample_vcd)
     = Inr (\<lparr> vp_timescale = (1, 9), vp_signals = [(''!'', sample_signal)],
              vp_changes = [(0, ''!'', ''1''), (0, ''!'', ''1'')], vp_scope_hierarchy = [] \<rparr>,
            ([(''!'', sample_signal)], [(0, ''!'', ''1''), (0, ''!'', ''1'')]))
   \<and> prefix [(0 :: int, ''!'', ''1'')] [(0, ''!'', ''1''), (0, ''!'', ''1'')]"
proof -
  have h: "parse \<lparr> vp_timescale = (1, 9), vp_signals = [(''!'', sample_signal)],
           vp_changes = [(0, ''!'', ''1'')], vp_scope_hierarchy = [] \<rparr> (Some sample_vcd)
     = Inr (\<lparr> vp_timescale = (1, 9), vp_signals = [(''!'', sample_signal)],
              vp_changes = [(0, ''!'', ''1''), (0, ''!'', ''1'')], vp_scope_hierarchy = [] \<rparr>,
            ([(''!'', sample_signal)], [(0, ''!'', ''1''), (0, ''!'', ''1'')]))"
    by code_simp
  from parse_accumulates [OF h] h show ?thesis by simp
qed

section \<open>Properties of the testbench generator\<close>





section \<open>Facts about the matcher\<close>



















section \<open>Counting matches by tokens\<close>






section \<open>Removing comments\<close>
















section \<open>Balance and tokens of a concatenation\<close>




















lemma hdclosed_append: "hdclosed a \<Longrightarrow> hdclosed b \<Longrightarrow> hdclosed (a @ b)"
  by (cases a) (auto simp: hdclosed_def)

lemma hdclosed_concat: "(\<And>x. x \<in> set xs \<Longrightarrow> hdclosed (f x)) \<Longrightarrow> hdclosed (concat (map f xs))"
proof (induction xs)
  case Nil
  then show ?case by (simp add: hdclosed_def)
next
  case (Cons x xs)
  then have "hdclosed (f x)" "hdclosed (concat (map f xs))" by simp_all
  then show ?case by (simp add: hdclosed_append)
qed

section \<open>Characters, identifiers and plain values\<close>











section \<open>Passing over plain blocks\<close>














section \<open>The pieces of the testbench under the scans\<close>

















section \<open>The sections of the testbench under the scans\<close>
















section \<open>The checker on a generated testbench\<close>







section \<open>The whole testbench under the checker\<close>















section \<open>The generated testbench is valid for plain names\<close>




end
